theory Spec2Isabelle
  imports Complex_Main
begin

unbundle bit_operations_syntax

section \<open>The HX711 driver of LnScale (hx711.py)\<close>

text \<open>
  The driver is a Python class whose methods mutate the instance and talk to two GPIO
  pins and to one-shot timers. The embedding passes the instance explicitly: a record
  \<open>hx711\<close> holds the attributes of the instance, and its field \<open>hw\<close> holds what the
  driver sees of the platform (the data line, the clock line, the timer objects,
  \<open>sys.maxsize\<close> and the float division of two integers). Python integers are \<open>int\<close>,
  the status word is an \<open>int\<close> with the bitwise operations of the source, and a Python
  float is the \<open>real\<close> number it denotes. The quotient of two integers at line 546 is the
  float that the interpreter computes, which depends on its float format (single precision
  on the Pico, double precision elsewhere): it is the platform's \<open>float_div\<close>, not the
  exact quotient. The product and the blend of lines 555-558 are taken as exact.
  A method is run without interruption; a timer that expires is a step of its own
  (\<open>expire\<close>), taken between two method calls. The attribute \<open>value\<close> is the field
  \<open>val\<close>, the constructor \<open>__init__\<close> is \<open>init\<close>, and \<open>machine.Timer\<close> is \<open>Timer\<close>.
\<close>

subsection \<open>Module constants (hx711.py, lines 31-85)\<close>

definition STATUS_NOMINAL :: int where "STATUS_NOMINAL = 0"
definition STATUS_INITIALIZING :: int where "STATUS_INITIALIZING = 1"
definition STATUS_POWERED_DOWN :: int where "STATUS_POWERED_DOWN = 2"
definition STATUS_POWERING_UP :: int where "STATUS_POWERING_UP = 4"
definition STATUS_NOT_SETTLED :: int where "STATUS_NOT_SETTLED = 8"
definition STATUS_DATA_NOT_READY :: int where "STATUS_DATA_NOT_READY = 16"
definition STATUS_DATA_READY_TIMEOUT :: int where "STATUS_DATA_READY_TIMEOUT = 32"
definition STATUS_NO_DATA :: int where "STATUS_NO_DATA = 64"
definition STATUS_DOUT_STUCK_LOW :: int where "STATUS_DOUT_STUCK_LOW = 128"
definition STATUS_ZEROING :: int where "STATUS_ZEROING = 256"
definition STATUS_OUT_OF_RANGE :: int where "STATUS_OUT_OF_RANGE = 512"

definition UPDATE_FREQ :: int where "UPDATE_FREQ = 10"

definition MAX_RAW :: int where "MAX_RAW = 0x7fffff"
definition MIN_RAW :: int where "MIN_RAW = - 0x800000"
definition EXTEND_SIGN :: int where "EXTEND_SIGN = 0x1000000"

definition GAIN_128 :: int where "GAIN_128 = 0"
definition GAIN_64 :: int where "GAIN_64 = 2"
definition GAIN_32 :: int where "GAIN_32 = 1"

definition SETTLING_TIME :: nat where "SETTLING_TIME = 400"

text \<open>Python's \<open>round\<close> on a float: to the nearest integer, a tie to the even one.\<close>

definition py_round :: "real \<Rightarrow> int" where
  "py_round x =
     (let f = \<lfloor>x\<rfloor>; d = x - of_int f
      in if d < 1 / 2 then f else if 1 / 2 < d then f + 1
         else if even f then f else f + 1)"

definition DATA_READY_TIMEOUT :: nat where
  "DATA_READY_TIMEOUT = nat (py_round (2000 / of_int UPDATE_FREQ))"

subsection \<open>The platform and the instance\<close>

datatype error = ValueError

datatype callback = Settled_timeout | Data_ready_timeout

text \<open>A \<open>machine.Timer\<close> object in one-shot mode; \<open>active\<close> is false once it has been
  deinitialised or has expired.\<close>

record timer =
  period :: nat
  callback :: callback
  active :: bool

text \<open>
  \<open>dout k\<close> is the level of the data line (true is 1) at the \<open>k\<close>-th time the driver
  samples the data pin, and \<open>sampled\<close> counts the samples taken so far. \<open>clock_log\<close>
  lists the levels written to the clock pin, the latest first. \<open>timers\<close> is the store of
  timer objects; an attribute holding a timer holds its index in the store.
  \<open>maxsize\<close> is \<open>sys.maxsize\<close> of the interpreter, a parameter of the model.
  \<open>float_div a b\<close> is the float that the interpreter computes for \<open>a / b\<close> on the integers
  \<open>a\<close> and \<open>b\<close>, as the real number it denotes; it is a parameter of the model too, and
  nothing is assumed about it.
\<close>

record platform =
  dout :: "nat \<Rightarrow> bool"
  sampled :: nat
  clock_log :: "bool list"
  timers :: "timer list"
  maxsize :: int
  float_div :: "int \<Rightarrow> int \<Rightarrow> real"

record hx711 =
  status :: int
  clock_pin_no :: int
  data_pin_no :: int
  configuration :: int
  data_ready_timer :: "nat option"
  settled_timer :: "nat option"
  offset :: int
  gain :: real
  dfs :: real
  zeros_to_average :: int
  val :: real
  zeroing_sum :: int
  values_received :: int
  hw :: platform

subsection \<open>Pins and timers\<close>

text \<open>\<open>self.clock(level)\<close> and \<open>self.data()\<close>.\<close>

definition clock :: "bool \<Rightarrow> hx711 \<Rightarrow> hx711" where
  "clock level s = s\<lparr>hw := (hw s)\<lparr>clock_log := level # clock_log (hw s)\<rparr>\<rparr>"

definition data :: "hx711 \<Rightarrow> bool \<times> hx711" where
  "data s = (dout (hw s) (sampled (hw s)), s\<lparr>hw := (hw s)\<lparr>sampled := Suc (sampled (hw s))\<rparr>\<rparr>)"

text \<open>\<open>machine.Timer(period=p, mode=ONE_SHOT, callback=cb)\<close>: a new object in the store.\<close>

definition Timer :: "nat \<Rightarrow> callback \<Rightarrow> hx711 \<Rightarrow> nat \<times> hx711" where
  "Timer p cb s =
     (length (timers (hw s)),
      s\<lparr>hw := (hw s)\<lparr>timers := timers (hw s) @ [\<lparr>period = p, callback = cb, active = True\<rparr>]\<rparr>\<rparr>)"

definition deinit :: "nat \<Rightarrow> hx711 \<Rightarrow> hx711" where
  "deinit i s =
     s\<lparr>hw := (hw s)\<lparr>timers := (timers (hw s))[i := (timers (hw s) ! i)\<lparr>active := False\<rparr>]\<rparr>\<rparr>"

text \<open>
  \<open>discard_timer(timer)\<close> (lines 98-108) deinitialises the object it is given. Its last
  statement, \<open>timer = None\<close>, rebinds the parameter only: the attribute of the caller
  that held the timer still holds it afterwards, so the instance is changed in the store
  alone.
\<close>

definition discard_timer :: "nat option \<Rightarrow> hx711 \<Rightarrow> hx711" where
  "discard_timer t s = (case t of None \<Rightarrow> s | Some i \<Rightarrow> deinit i s)"

text \<open>A timer is pending when the attribute holds one that is still active.\<close>

definition pending :: "nat option \<Rightarrow> hx711 \<Rightarrow> bool" where
  "pending t s =
     (case t of None \<Rightarrow> False
      | Some i \<Rightarrow> i < length (timers (hw s)) \<and> active (timers (hw s) ! i))"

subsection \<open>Status flags (lines 299-329)\<close>

definition validate_gain :: "int \<Rightarrow> error + unit" where
  "validate_gain g =
     (if \<not> (g = GAIN_128 \<or> g = GAIN_64 \<or> g = GAIN_32) then Inl ValueError else Inr ())"

definition clear_status :: "int \<Rightarrow> hx711 \<Rightarrow> hx711" where
  "clear_status flags s = s\<lparr>status := status s AND NOT flags\<rparr>"

definition set_status :: "int \<Rightarrow> hx711 \<Rightarrow> hx711" where
  "set_status flags s = s\<lparr>status := status s OR flags\<rparr>"

definition status_contains :: "int \<Rightarrow> hx711 \<Rightarrow> bool" where
  "status_contains flags s =
     (if flags = STATUS_NOMINAL then status s = STATUS_NOMINAL
      else status s AND flags \<noteq> 0)"

subsection \<open>Power, settling and data ready (lines 357-467)\<close>

definition zero_now :: "hx711 \<Rightarrow> hx711" where
  "zero_now s = (set_status STATUS_ZEROING (s\<lparr>zeroing_sum := 0\<rparr>))\<lparr>values_received := 0\<rparr>"

definition power_down :: "hx711 \<Rightarrow> hx711" where
  "power_down s = clock True (set_status (STATUS_POWERED_DOWN OR STATUS_NOT_SETTLED) s)"

definition powered_up :: "hx711 \<Rightarrow> bool" where
  "powered_up s =
     (\<not> status_contains (STATUS_INITIALIZING OR STATUS_POWERED_DOWN OR STATUS_POWERING_UP) s)"

definition settled_timeout :: "hx711 \<Rightarrow> hx711" where
  "settled_timeout s =
     (let s1 = clear_status STATUS_NOT_SETTLED s in discard_timer (settled_timer s1) s1)"

definition settled :: "hx711 \<Rightarrow> bool" where
  "settled s = (powered_up s \<and> \<not> status_contains STATUS_NOT_SETTLED s)"

definition data_ready_timeout :: "hx711 \<Rightarrow> hx711" where
  "data_ready_timeout s =
     (let s1 = set_status STATUS_DATA_READY_TIMEOUT s in discard_timer (data_ready_timer s1) s1)"

definition data_ready :: "hx711 \<Rightarrow> bool \<times> hx711" where
  "data_ready s =
     (let (level, s1) = data s; ready = (\<not> level)
      in if ready then
           (let s2 = discard_timer (data_ready_timer s1) s1
            in (ready, clear_status (STATUS_DATA_NOT_READY OR STATUS_DATA_READY_TIMEOUT) s2))
         else
           (let s2 = set_status STATUS_DATA_NOT_READY s1
            in if settled s2 \<and> data_ready_timer s2 = None then
                 (let (t, s3) = Timer DATA_READY_TIMEOUT Data_ready_timeout s2
                  in (ready, s3\<lparr>data_ready_timer := Some t\<rparr>))
               else (ready, s2)))"

text \<open>\<open>for ms in range(timeout)\<close>: the argument counts the iterations that are left.\<close>

fun wait_data_ready :: "nat \<Rightarrow> hx711 \<Rightarrow> bool \<times> hx711" where
  "wait_data_ready 0 s = (False, s)"
| "wait_data_ready (Suc n) s =
     (let (ready, s1) = data_ready s
      in if ready then (True, s1) else wait_data_ready n s1)"

definition clock_a_data_bit :: "hx711 \<Rightarrow> bool \<times> hx711" where
  "clock_a_data_bit s = data (clock False (clock True s))"

definition weighted_average :: "real \<Rightarrow> hx711 \<Rightarrow> real" where
  "weighted_average v s = val s * dfs s + v * (1 - dfs s)"

subsection \<open>read (lines 485-560)\<close>

text \<open>The loop of lines 506-508: \<open>n\<close> more bits are shifted into \<open>d\<close>.\<close>

fun shift_in :: "nat \<Rightarrow> int \<Rightarrow> hx711 \<Rightarrow> int \<times> hx711" where
  "shift_in 0 d s = (d, s)"
| "shift_in (Suc n) d s =
     (let (b, s1) = clock_a_data_bit s
      in shift_in n (push_bit 1 d OR of_bool b) s1)"

text \<open>The loop of lines 527-528.\<close>

fun extra_clocks :: "nat \<Rightarrow> hx711 \<Rightarrow> hx711" where
  "extra_clocks 0 s = s"
| "extra_clocks (Suc n) s = extra_clocks n (snd (clock_a_data_bit s))"

text \<open>Lines 531-532.\<close>

definition extend_sign :: "int \<Rightarrow> int" where
  "extend_sign d = (if d > MAX_RAW then d - EXTEND_SIGN else d)"

text \<open>Lines 533-536.\<close>

definition range_check :: "int \<Rightarrow> hx711 \<Rightarrow> hx711" where
  "range_check d s =
     (if d = MAX_RAW \<or> d = MIN_RAW then set_status STATUS_OUT_OF_RANGE s
      else clear_status STATUS_OUT_OF_RANGE s)"

text \<open>Lines 542-552: the zeroing chain and the increment of the counter.\<close>

definition count_value :: "int \<Rightarrow> hx711 \<Rightarrow> hx711" where
  "count_value d s =
     (let s1 =
        (if values_received s < zeros_to_average s then
           s\<lparr>zeroing_sum := zeroing_sum s + d\<rparr>
         else if status_contains STATUS_ZEROING s \<and> values_received s \<ge> zeros_to_average s then
           clear_status STATUS_ZEROING
             (if zeros_to_average s > 0 then
                s\<lparr>offset := py_round (float_div (hw s) (zeroing_sum s) (zeros_to_average s))\<rparr>
              else s)
         else if values_received s = maxsize (hw s) then
           s\<lparr>values_received := zeros_to_average s\<rparr>
         else s)
      in s1\<lparr>values_received := values_received s1 + 1\<rparr>)"

text \<open>Lines 554-560.\<close>

definition commit :: "int \<Rightarrow> hx711 \<Rightarrow> hx711" where
  "commit d s =
     (if status s = STATUS_NOMINAL then
        (let v = gain s * of_int (d - offset s);
             v' = (if dfs s > 0 \<and> dfs s < 1 \<and> values_received s > zeros_to_average s
                   then weighted_average v s else v)
         in s\<lparr>val := v'\<rparr>)
      else s)"

text \<open>
  The result of \<open>read\<close> is \<open>Some v\<close> where the source executes \<open>return self.value\<close> and
  \<open>None\<close> where the body runs to its end without a \<open>return\<close>, which in Python returns
  the object \<open>None\<close>.
\<close>

definition read :: "hx711 \<Rightarrow> real option \<times> hx711" where
  "read s =
     (let (ready, s1) = data_ready s
      in if \<not> ready then
           (let s2 = set_status STATUS_NO_DATA s1 in (Some (val s2), s2))
         else
           (let s2 = clear_status STATUS_NO_DATA s1;
                (d, s3) = shift_in 24 0 s2;
                (b, s4) = clock_a_data_bit s3
            in if \<not> b then
                 (let s5 = set_status STATUS_DOUT_STUCK_LOW s4 in (Some (val s5), s5))
               else
                 (let s5 = clear_status STATUS_DOUT_STUCK_LOW s4;
                      s6 = extra_clocks (nat (configuration s5)) s5;
                      d1 = extend_sign d;
                      s7 = range_check d1 s6
                  in if settled s7 then (None, commit d1 (count_value d1 s7))
                     else (None, s7))))"

subsection \<open>set_gain, power_up, reset and the constructor\<close>

definition set_gain :: "int \<Rightarrow> hx711 \<Rightarrow> error + (bool \<times> hx711)" where
  "set_gain g s =
     (case validate_gain g of
        Inl e \<Rightarrow> Inl e
      | Inr _ \<Rightarrow>
          if g \<noteq> configuration s then
            (let s1 = s\<lparr>configuration := g\<rparr>;
                 s2 = snd (wait_data_ready DATA_READY_TIMEOUT s1);
                 s3 = snd (read s2);
                 s4 = set_status STATUS_NOT_SETTLED s3;
                 s5 = discard_timer (settled_timer s4) s4;
                 (t, s6) = Timer SETTLING_TIME Settled_timeout s5
             in Inr (True, s6\<lparr>settled_timer := Some t\<rparr>))
          else Inr (False, s))"

text \<open>\<open>power_up\<close> calls \<open>self.set_gain()\<close>, that is, with the default argument
  \<open>GAIN_128\<close>.\<close>

definition power_up :: "hx711 \<Rightarrow> error + hx711" where
  "power_up s =
     (let s1 = set_status (STATUS_POWERING_UP OR STATUS_NOT_SETTLED) s;
          s2 = zero_now s1;
          s3 = clock False s2;
          s4 = clear_status STATUS_POWERED_DOWN s3;
          s5 = discard_timer (settled_timer s4) s4;
          (t, s6) = Timer SETTLING_TIME Settled_timeout s5;
          s7 = s6\<lparr>settled_timer := Some t\<rparr>
      in case set_gain GAIN_128 s7 of
           Inl e \<Rightarrow> Inl e
         | Inr (_, s8) \<Rightarrow> Inr (clear_status STATUS_POWERING_UP s8))"

definition reset :: "hx711 \<Rightarrow> error + hx711" where
  "reset s = power_up (power_down s)"

text \<open>
  \<open>__init__\<close> (lines 257-288). The attributes \<open>zeroing_sum\<close> and \<open>values_received\<close> do
  not exist before \<open>zero_now\<close> has run, which \<open>reset\<close> does before anything reads them.
  The name, the lock and the module's list of instances are left out.
\<close>

definition init :: "platform \<Rightarrow> int \<Rightarrow> int \<Rightarrow> int \<Rightarrow> error + hx711" where
  "init h clock_pin data_pin g =
     (case validate_gain g of
        Inl e \<Rightarrow> Inl e
      | Inr _ \<Rightarrow>
          (case reset
             \<lparr>status = STATUS_INITIALIZING, clock_pin_no = clock_pin, data_pin_no = data_pin,
              configuration = GAIN_128, data_ready_timer = None, settled_timer = None,
              offset = 0, gain = 1, dfs = 0, zeros_to_average = 50, val = 0,
              zeroing_sum = 0, values_received = 0, hw = h\<rparr> of
             Inl e \<Rightarrow> Inl e
           | Inr s \<Rightarrow> Inr (clear_status STATUS_INITIALIZING s)))"

subsection \<open>Timer expiry\<close>

text \<open>A one-shot timer that is still active expires: it stops and its callback runs.\<close>

definition expire :: "nat \<Rightarrow> hx711 \<Rightarrow> hx711" where
  "expire i s =
     (if i < length (timers (hw s)) \<and> active (timers (hw s) ! i) then
        (case callback (timers (hw s) ! i) of
           Settled_timeout \<Rightarrow> settled_timeout (deinit i s)
         | Data_ready_timeout \<Rightarrow> data_ready_timeout (deinit i s))
      else s)"

section \<open>Auxiliary notions for the proofs\<close>

text \<open>\<open>n\<close> pulses on the clock line, each followed by one sample of the data line.\<close>

definition pulses :: "nat \<Rightarrow> platform \<Rightarrow> platform" where
  "pulses n h = h\<lparr>sampled := sampled h + n,
                  clock_log := concat (replicate n [False, True]) @ clock_log h\<rparr>"

text \<open>The accumulator after \<open>n\<close> more samples \<open>f k\<close>, \<open>f (k + 1)\<close>, ... have been shifted
  into \<open>d\<close>, the first sample ending up in the most significant position.\<close>

fun shifted :: "(nat \<Rightarrow> bool) \<Rightarrow> nat \<Rightarrow> nat \<Rightarrow> int \<Rightarrow> int" where
  "shifted f k 0 d = d"
| "shifted f k (Suc n) d = shifted f (Suc k) n (push_bit 1 d OR of_bool (f k))"

definition cancel :: "nat option \<Rightarrow> timer list \<Rightarrow> timer list" where
  "cancel t ts = (case t of None \<Rightarrow> ts | Some i \<Rightarrow> ts[i := (ts ! i)\<lparr>active := False\<rparr>])"

text \<open>The sign-extended count that \<open>read\<close> holds in \<open>data\<close> after line 532, on a cycle
  that gets that far.\<close>

definition raw_value :: "hx711 \<Rightarrow> int" where
  "raw_value s =
     extend_sign (fst (shift_in 24 0 (clear_status STATUS_NO_DATA (snd (data_ready s)))))"

text \<open>The instance when \<open>read\<close> arrives at line 540, on a cycle that gets that far.\<close>

definition cycle :: "hx711 \<Rightarrow> hx711" where
  "cycle s =
     (let s2 = clear_status STATUS_NO_DATA (snd (data_ready s));
          s3 = snd (shift_in 24 0 s2);
          s4 = snd (clock_a_data_bit s3);
          s5 = clear_status STATUS_DOUT_STUCK_LOW s4;
          s6 = extra_clocks (nat (configuration s5)) s5
      in range_check (raw_value s) s6)"

text \<open>
  A call of \<open>read\<close> in state \<open>s\<close> is a settled read when the data line is low at the
  data-ready test, the 25th clock pulse samples it high, and the driver is settled: these
  are the cycles that reach the zero-averaging code of lines 540-552.
\<close>

definition settled_read :: "hx711 \<Rightarrow> bool" where
  "settled_read s \<longleftrightarrow>
     \<not> dout (hw s) (sampled (hw s)) \<and> dout (hw s) (sampled (hw s) + 25) \<and> settled s"

text \<open>The instance after \<open>n\<close> calls of \<open>read\<close> in a row.\<close>

fun reads :: "nat \<Rightarrow> hx711 \<Rightarrow> hx711" where
  "reads 0 s = s"
| "reads (Suc n) s = snd (read (reads n s))"

text \<open>The instance after \<open>n\<close> calls of \<open>data_ready\<close> in a row.\<close>

fun polls :: "nat \<Rightarrow> hx711 \<Rightarrow> hx711" where
  "polls 0 s = s"
| "polls (Suc n) s = snd (data_ready (polls n s))"

subsection \<open>Concrete drivers\<close>

text \<open>A test bench: the data line is high at exactly the listed samples; nothing has
  happened on the clock line and no timer exists yet. Its float division gives the exact
  quotient; the only quotients that the concrete drivers below compute are \<open>0 / 50\<close> and
  \<open>3 / 2\<close>, which every binary float format represents exactly.\<close>

definition bench :: "nat list \<Rightarrow> platform" where
  "bench highs =
     \<lparr>dout = (\<lambda>k. k \<in> set highs), sampled = 0, clock_log = [], timers = [],
      maxsize = 2147483647, float_div = (\<lambda>a b. of_int a / of_int b)\<rparr>"

text \<open>
  A driver on pins 27 and 26 (those of main.py) on such a bench, as the constructor
  leaves it once its settle timer has expired, with the given status word, configuration,
  averaging target and counter.
\<close>

definition driver :: "int \<Rightarrow> int \<Rightarrow> int \<Rightarrow> int \<Rightarrow> nat list \<Rightarrow> hx711" where
  "driver st cfg target n highs =
     \<lparr>status = st, clock_pin_no = 27, data_pin_no = 26, configuration = cfg,
      data_ready_timer = None, settled_timer = Some 0, offset = 0, gain = 1, dfs = 0,
      zeros_to_average = target, val = 0, zeroing_sum = 0, values_received = n,
      hw = (bench highs)\<lparr>clock_log := [False, True],
             timers := [\<lparr>period = SETTLING_TIME, callback = Settled_timeout,
                         active = False\<rparr>]\<rparr>\<rparr>"

section \<open>Basic facts\<close>

lemmas status_defs = STATUS_NOMINAL_def STATUS_INITIALIZING_def STATUS_POWERED_DOWN_def
  STATUS_POWERING_UP_def STATUS_NOT_SETTLED_def STATUS_DATA_NOT_READY_def
  STATUS_DATA_READY_TIMEOUT_def STATUS_NO_DATA_def STATUS_DOUT_STUCK_LOW_def
  STATUS_ZEROING_def STATUS_OUT_OF_RANGE_def

lemma or_and_same: "(x OR f) AND f = (f::int)"
  by (auto simp: bit_eq_iff bit_simps)

lemma DATA_READY_TIMEOUT_eq: "DATA_READY_TIMEOUT = 200"
  by (simp add: DATA_READY_TIMEOUT_def py_round_def UPDATE_FREQ_def)

subsection \<open>The pulse train\<close>

lemma pulses_fields:
  "dout (pulses n h) = dout h" "sampled (pulses n h) = sampled h + n"
  "timers (pulses n h) = timers h" "maxsize (pulses n h) = maxsize h"
  "float_div (pulses n h) = float_div h"
  "clock_log (pulses n h) = concat (replicate n [False, True]) @ clock_log h"
  by (simp_all add: pulses_def)

lemma pulses_pulses: "pulses n (pulses m h) = pulses (n + m) h"
  by (simp add: pulses_def replicate_add)

lemma pulses_0: "pulses 0 h = h"
  by (simp add: pulses_def)

lemma clock_a_data_bit_eq:
  "clock_a_data_bit s = (dout (hw s) (sampled (hw s)), s\<lparr>hw := pulses 1 (hw s)\<rparr>)"
  by (simp add: clock_a_data_bit_def data_def clock_def pulses_def)

lemma shift_in_eq:
  "shift_in n d s = (shifted (dout (hw s)) (sampled (hw s)) n d, s\<lparr>hw := pulses n (hw s)\<rparr>)"
proof (induction n arbitrary: d s)
  case 0
  show ?case by (simp add: pulses_0)
next
  case (Suc n)
  show ?case by (simp add: clock_a_data_bit_eq Suc pulses_pulses) (simp add: pulses_def)
qed

lemma extra_clocks_eq: "extra_clocks n s = s\<lparr>hw := pulses n (hw s)\<rparr>"
proof (induction n arbitrary: s)
  case 0
  show ?case by (simp add: pulses_0)
next
  case (Suc n)
  show ?case by (simp add: clock_a_data_bit_eq Suc pulses_pulses)
qed

lemma shifted_range:
  "0 \<le> d \<Longrightarrow> d < 2 ^ m \<Longrightarrow> 0 \<le> shifted f k n d \<and> shifted f k n d < 2 ^ (m + n)"
proof (induction n arbitrary: d k m)
  case 0
  then show ?case by simp
next
  case (Suc n)
  have eq: "push_bit 1 d OR of_bool (f k) = 2 * d + of_bool (f k)"
    by (simp add: or_one_eq)
  have "0 \<le> 2 * d + of_bool (f k)" "2 * d + of_bool (f k) < 2 ^ (Suc m)"
    using Suc.prems by auto
  from Suc.IH [OF this, of "Suc k"]
  have "0 \<le> shifted f k (Suc n) d \<and> shifted f k (Suc n) d < 2 ^ (Suc m + n)"
    by (simp only: shifted.simps eq)
  then show ?case by simp
qed

lemma shifted_numeral:
  "shifted f k (numeral n) d =
     shifted f (k + 1) (pred_numeral n) (push_bit 1 d OR of_bool (f k))"
  by (simp add: numeral_eq_Suc)

lemma discard_timer_eq:
  "discard_timer t s = s\<lparr>hw := (hw s)\<lparr>timers := cancel t (timers (hw s))\<rparr>\<rparr>"
  by (cases t) (simp_all add: discard_timer_def deinit_def cancel_def)

subsection \<open>The three ways through read\<close>

lemma data_ready_low:
  assumes "\<not> dout (hw s) (sampled (hw s))"
  shows "data_ready s =
     (True, s\<lparr>status := status s AND NOT 48,
              hw := (hw s)\<lparr>sampled := Suc (sampled (hw s)),
                           timers := cancel (data_ready_timer s) (timers (hw s))\<rparr>\<rparr>)"
  using assms
  by (simp add: data_ready_def data_def discard_timer_eq clear_status_def
      STATUS_DATA_NOT_READY_def STATUS_DATA_READY_TIMEOUT_def)

lemma raw_value_low:
  assumes "\<not> dout (hw s) (sampled (hw s))"
  shows "raw_value s = extend_sign (shifted (dout (hw s)) (Suc (sampled (hw s))) 24 0)"
  by (simp add: raw_value_def data_ready_low [OF assms] shift_in_eq clear_status_def)

lemma raw_value_range:
  assumes "\<not> dout (hw s) (sampled (hw s))"
  shows "MIN_RAW \<le> raw_value s \<and> raw_value s \<le> MAX_RAW"
  using shifted_range [of 0 0 "dout (hw s)" "Suc (sampled (hw s))" 24]
  by (simp add: raw_value_low [OF assms] extend_sign_def MAX_RAW_def MIN_RAW_def
      EXTEND_SIGN_def)

lemma cycle_low:
  assumes "\<not> dout (hw s) (sampled (hw s))"
  shows "cycle s =
     s\<lparr>status := (if raw_value s = MAX_RAW \<or> raw_value s = MIN_RAW
                   then (status s AND NOT 240) OR 512 else status s AND NOT 752),
       hw := pulses (nat (configuration s) + 25)
               ((hw s)\<lparr>sampled := Suc (sampled (hw s)),
                        timers := cancel (data_ready_timer s) (timers (hw s))\<rparr>)\<rparr>"
  by (simp add: cycle_def data_ready_low [OF assms] shift_in_eq clock_a_data_bit_eq
     extra_clocks_eq clear_status_def set_status_def range_check_def Let_def pulses_pulses
     STATUS_NO_DATA_def STATUS_DOUT_STUCK_LOW_def STATUS_OUT_OF_RANGE_def and.assoc
     flip: bit.de_Morgan_disj)

lemma cycle_fields:
  assumes "\<not> dout (hw s) (sampled (hw s))"
  shows "val (cycle s) = val s" "offset (cycle s) = offset s"
    "zeroing_sum (cycle s) = zeroing_sum s" "values_received (cycle s) = values_received s"
    "zeros_to_average (cycle s) = zeros_to_average s"
    "configuration (cycle s) = configuration s"
    "gain (cycle s) = gain s" "dfs (cycle s) = dfs s"
    "maxsize (hw (cycle s)) = maxsize (hw s)" "dout (hw (cycle s)) = dout (hw s)"
    "float_div (hw (cycle s)) = float_div (hw s)"
    "sampled (hw (cycle s)) = sampled (hw s) + 26 + nat (configuration s)"
  by (simp_all add: cycle_low [OF assms] pulses_fields)

lemma read_high:
  assumes "dout (hw s) (sampled (hw s))"
  shows "fst (read s) = Some (val s)" "val (snd (read s)) = val s"
    "status_contains STATUS_NO_DATA (snd (read s))"
  using assms
  by (simp_all add: read_def data_ready_def data_def Let_def set_status_def Timer_def
     status_contains_def STATUS_NO_DATA_def STATUS_NOMINAL_def or_and_same split: prod.splits)

lemma bit25:
  assumes "\<not> dout (hw s) (sampled (hw s))"
  shows "fst (clock_a_data_bit
           (snd (shift_in 24 0 (clear_status STATUS_NO_DATA (snd (data_ready s))))))
     = dout (hw s) (sampled (hw s) + 25)"
  by (simp add: data_ready_low [OF assms] shift_in_eq clock_a_data_bit_eq clear_status_def
      pulses_fields add.commute)

lemma read_good:
  assumes "\<not> dout (hw s) (sampled (hw s))" "dout (hw s) (sampled (hw s) + 25)"
  shows "read s =
     (None, if settled (cycle s) then commit (raw_value s) (count_value (raw_value s) (cycle s))
            else cycle s)"
proof -
  have "fst (data_ready s)" by (simp add: data_ready_low [OF assms(1)])
  with bit25 [OF assms(1)] assms(2) show ?thesis
    by (simp add: read_def cycle_def raw_value_def Let_def case_prod_beta)
qed

lemma read_stuck:
  assumes "\<not> dout (hw s) (sampled (hw s))" "\<not> dout (hw s) (sampled (hw s) + 25)"
  shows "read s = (Some (val s),
     s\<lparr>status := (status s AND NOT 112) OR 128,
       hw := pulses 25 ((hw s)\<lparr>sampled := Suc (sampled (hw s)),
                        timers := cancel (data_ready_timer s) (timers (hw s))\<rparr>)\<rparr>)"
proof -
  have "fst (data_ready s)" by (simp add: data_ready_low [OF assms(1)])
  with bit25 [OF assms(1)] assms(2) show ?thesis
    by (simp add: read_def Let_def case_prod_beta)
      (simp add: data_ready_low [OF assms(1)] shift_in_eq clock_a_data_bit_eq
        clear_status_def set_status_def pulses_pulses STATUS_NO_DATA_def
        STATUS_DOUT_STUCK_LOW_def and.assoc flip: bit.de_Morgan_disj)
qed

lemma count_value_fields:
  "val (count_value d s) = val s" "hw (count_value d s) = hw s"
  "zeros_to_average (count_value d s) = zeros_to_average s"
  "gain (count_value d s) = gain s" "dfs (count_value d s) = dfs s"
  "configuration (count_value d s) = configuration s"
  by (simp_all add: count_value_def Let_def clear_status_def)

lemma commit_fields:
  "status (commit d s) = status s" "hw (commit d s) = hw s"
  "zeros_to_average (commit d s) = zeros_to_average s"
  "offset (commit d s) = offset s" "values_received (commit d s) = values_received s"
  "zeroing_sum (commit d s) = zeroing_sum s"
  "configuration (commit d s) = configuration s"
  by (simp_all add: commit_def Let_def)

lemma commit_val: "status s \<noteq> STATUS_NOMINAL \<Longrightarrow> val (commit d s) = val s"
  by (simp add: commit_def)

subsection \<open>Flags across a read\<close>

lemma settled_status: "settled s \<longleftrightarrow> status s AND 7 = 0 \<and> status s AND 8 = 0"
  by (simp add: settled_def powered_up_def status_contains_def status_defs)

lemma settled_cycle:
  assumes "\<not> dout (hw s) (sampled (hw s))"
  shows "settled (cycle s) = settled s"
  by (simp add: settled_status cycle_low [OF assms] bit.conj_disj_distrib2 and.assoc)

lemma zeroing_cycle:
  assumes "\<not> dout (hw s) (sampled (hw s))"
  shows "status_contains STATUS_ZEROING (cycle s) = status_contains STATUS_ZEROING s"
  by (simp add: status_contains_def status_defs cycle_low [OF assms]
      bit.conj_disj_distrib2 and.assoc)

lemma out_of_range_cycle:
  assumes "\<not> dout (hw s) (sampled (hw s))"
  shows "status_contains STATUS_OUT_OF_RANGE (cycle s) \<longleftrightarrow>
    raw_value s = MAX_RAW \<or> raw_value s = MIN_RAW"
  by (simp add: status_contains_def status_defs cycle_low [OF assms]
      bit.conj_disj_distrib2 and.assoc or_eq_0_iff)

lemma count_value_out_of_range:
  "status_contains STATUS_OUT_OF_RANGE (count_value d s) =
     status_contains STATUS_OUT_OF_RANGE s"
  by (simp add: count_value_def Let_def clear_status_def status_contains_def status_defs
      and.assoc)

lemma commit_contains: "status_contains f (commit d s) = status_contains f s"
  by (simp add: status_contains_def commit_fields)

lemma read_settled:
  assumes "settled_read s"
  shows "read s = (None, commit (raw_value s) (count_value (raw_value s) (cycle s)))"
  using assms by (simp add: settled_read_def read_good settled_cycle)

subsection \<open>Zero averaging\<close>

lemma count_value_received:
  "values_received (count_value d s) =
    (if values_received s < zeros_to_average s \<or> status_contains STATUS_ZEROING s
     then values_received s + 1
     else if values_received s = maxsize (hw s) then zeros_to_average s + 1
     else values_received s + 1)"
  by (simp add: count_value_def Let_def clear_status_def)

lemma count_value_accumulating:
  assumes "values_received s < zeros_to_average s"
  shows "count_value d s = s\<lparr>zeroing_sum := zeroing_sum s + d,
     values_received := values_received s + 1\<rparr>"
  using assms by (simp add: count_value_def)

lemma count_value_finishing:
  assumes "zeros_to_average s \<le> values_received s" "status_contains STATUS_ZEROING s"
    "0 < zeros_to_average s"
  shows "count_value d s =
     s\<lparr>offset := py_round (float_div (hw s) (zeroing_sum s) (zeros_to_average s)),
       status := status s AND NOT 256, values_received := values_received s + 1\<rparr>"
  using assms by (simp add: count_value_def clear_status_def STATUS_ZEROING_def)

lemma read_accumulating:
  assumes sr: "settled_read s" and less: "values_received s < zeros_to_average s"
  shows "values_received (snd (read s)) = values_received s + 1"
    "zeroing_sum (snd (read s)) = zeroing_sum s + raw_value s"
    "zeros_to_average (snd (read s)) = zeros_to_average s"
    "offset (snd (read s)) = offset s"
    "float_div (hw (snd (read s))) = float_div (hw s)"
    "status_contains STATUS_ZEROING (snd (read s)) = status_contains STATUS_ZEROING s"
proof -
  from sr have low: "\<not> dout (hw s) (sampled (hw s))" by (simp add: settled_read_def)
  from less have less': "values_received (cycle s) < zeros_to_average (cycle s)"
    by (simp add: cycle_fields [OF low])
  show "values_received (snd (read s)) = values_received s + 1"
    "zeroing_sum (snd (read s)) = zeroing_sum s + raw_value s"
    "zeros_to_average (snd (read s)) = zeros_to_average s"
    "offset (snd (read s)) = offset s"
    "float_div (hw (snd (read s))) = float_div (hw s)"
    by (simp_all add: read_settled [OF sr] commit_fields count_value_accumulating [OF less']
        cycle_fields [OF low])
  show "status_contains STATUS_ZEROING (snd (read s)) = status_contains STATUS_ZEROING s"
  proof -
    have "status_contains STATUS_ZEROING (snd (read s)) =
        status_contains STATUS_ZEROING (cycle s)"
      by (simp add: read_settled [OF sr] commit_fields count_value_accumulating [OF less']
          status_contains_def)
    then show ?thesis by (simp add: zeroing_cycle [OF low])
  qed
qed

lemma read_finishing:
  assumes sr: "settled_read s" and full: "zeros_to_average s \<le> values_received s"
    and zeroing: "status_contains STATUS_ZEROING s" and pos: "0 < zeros_to_average s"
  shows "offset (snd (read s)) =
      py_round (float_div (hw s) (zeroing_sum s) (zeros_to_average s))"
    "\<not> status_contains STATUS_ZEROING (snd (read s))"
proof -
  from sr have low: "\<not> dout (hw s) (sampled (hw s))" by (simp add: settled_read_def)
  have a: "zeros_to_average (cycle s) \<le> values_received (cycle s)"
    "status_contains STATUS_ZEROING (cycle s)" "0 < zeros_to_average (cycle s)"
    using full zeroing pos by (simp_all add: cycle_fields [OF low] zeroing_cycle [OF low])
  show "offset (snd (read s)) =
      py_round (float_div (hw s) (zeroing_sum s) (zeros_to_average s))"
    by (simp add: read_settled [OF sr] commit_fields count_value_finishing [OF a]
        cycle_fields [OF low])
  show "\<not> status_contains STATUS_ZEROING (snd (read s))"
    by (simp add: read_settled [OF sr] commit_fields count_value_finishing [OF a]
        status_contains_def status_defs and.assoc)
qed

lemma zero_now_fields:
  "values_received (zero_now s) = 0" "zeroing_sum (zero_now s) = 0"
  "zeros_to_average (zero_now s) = zeros_to_average s"
  "status_contains STATUS_ZEROING (zero_now s)" "offset (zero_now s) = offset s"
  "hw (zero_now s) = hw s"
  by (simp_all add: zero_now_def set_status_def status_contains_def status_defs or_and_same)

text \<open>While the counter is below the target, every settled read adds its count to the
  accumulator and nothing else happens to the averaging state.\<close>

lemma averaging_invariant:
  assumes "\<forall>i<k. settled_read (reads i (zero_now s))" and "int k \<le> zeros_to_average s"
  shows "values_received (reads k (zero_now s)) = int k \<and>
    zeroing_sum (reads k (zero_now s)) = (\<Sum>i<k. raw_value (reads i (zero_now s))) \<and>
    zeros_to_average (reads k (zero_now s)) = zeros_to_average s \<and>
    offset (reads k (zero_now s)) = offset s \<and>
    float_div (hw (reads k (zero_now s))) = float_div (hw s) \<and>
    status_contains STATUS_ZEROING (reads k (zero_now s))"
  using assms
proof (induction k)
  case 0
  show ?case by (simp add: zero_now_fields)
next
  case (Suc k)
  let ?z = "reads k (zero_now s)"
  from Suc.prems have IH: "values_received ?z = int k"
    "zeroing_sum ?z = (\<Sum>i<k. raw_value (reads i (zero_now s)))"
    "zeros_to_average ?z = zeros_to_average s" "offset ?z = offset s"
    "float_div (hw ?z) = float_div (hw s)"
    "status_contains STATUS_ZEROING ?z"
    using Suc.IH by simp_all
  from Suc.prems have sr: "settled_read ?z" by simp
  from Suc.prems IH have less: "values_received ?z < zeros_to_average ?z" by simp
  show ?case
    by (simp add: read_accumulating [OF sr less] IH)
qed

subsection \<open>Configuration\<close>

lemma validate_gain_legal:
  "g \<in> {GAIN_128, GAIN_64, GAIN_32} \<Longrightarrow> validate_gain g = Inr ()"
  by (auto simp: validate_gain_def)

lemma init_eq:
  assumes "validate_gain g = Inr ()"
  shows "init h cp dp g = Inr
     \<lparr>status = STATUS_NOT_SETTLED OR STATUS_ZEROING, clock_pin_no = cp, data_pin_no = dp,
      configuration = GAIN_128, data_ready_timer = None,
      settled_timer = Some (length (timers h)),
      offset = 0, gain = 1, dfs = 0, zeros_to_average = 50, val = 0,
      zeroing_sum = 0, values_received = 0,
      hw = h\<lparr>clock_log := False # True # clock_log h,
             timers := timers h @
               [\<lparr>period = SETTLING_TIME, callback = Settled_timeout, active = True\<rparr>]\<rparr>\<rparr>"
  using assms
  by (simp add: init_def reset_def power_down_def power_up_def set_gain_def zero_now_def
      clock_def Timer_def discard_timer_def set_status_def clear_status_def Let_def
      validate_gain_def GAIN_128_def status_defs)

lemma data_ready_configuration: "configuration (snd (data_ready s)) = configuration s"
  by (simp add: data_ready_def data_def Let_def discard_timer_eq clear_status_def
      set_status_def Timer_def)

lemma read_configuration: "configuration (snd (read s)) = configuration s"
  by (simp add: read_def Let_def case_prod_beta data_ready_configuration shift_in_eq
      clock_a_data_bit_eq extra_clocks_eq set_status_def clear_status_def range_check_def
      commit_fields count_value_fields)

lemma wait_data_ready_configuration:
  "configuration (snd (wait_data_ready n s)) = configuration s"
  by (induction n arbitrary: s) (simp_all add: case_prod_beta data_ready_configuration)

lemma set_gain_configuration:
  assumes "validate_gain g = Inr ()"
  shows "\<not> isl (set_gain g s) \<and> configuration (snd (projr (set_gain g s))) = g"
  using assms
  by (simp add: set_gain_def Let_def Timer_def discard_timer_eq set_status_def
      read_configuration wait_data_ready_configuration)

lemma power_up_configuration:
  "\<not> isl (power_up s) \<and> configuration (projr (power_up s)) = GAIN_128"
proof -
  have v: "validate_gain GAIN_128 = Inr ()" by (simp add: validate_gain_def)
  obtain s7 where p: "power_up s =
      (case set_gain GAIN_128 s7 of Inl e \<Rightarrow> Inl e
       | Inr (_, s8) \<Rightarrow> Inr (clear_status STATUS_POWERING_UP s8))"
    by (simp add: power_up_def Let_def case_prod_beta)
  from set_gain_configuration [OF v, of s7]
  obtain b s8 where g: "set_gain GAIN_128 s7 = Inr (b, s8)" "configuration s8 = GAIN_128"
    by (cases "set_gain GAIN_128 s7") auto
  show ?thesis by (simp add: p g clear_status_def)
qed

subsection \<open>Evaluation on concrete drivers\<close>

text \<open>The concrete drivers are states of a constructed driver: with any legal gain, the
  constructor followed by the expiry of the settle timer gives the driver that is
  zeroing, with the default target and an empty counter.\<close>

lemma driver_constructed:
  "g \<in> {GAIN_128, GAIN_64, GAIN_32} \<Longrightarrow>
   expire 0 (projr (init (bench highs) 27 26 g)) = driver STATUS_ZEROING GAIN_128 50 0 highs"
  by (simp add: init_eq [OF validate_gain_legal] expire_def settled_timeout_def deinit_def
      discard_timer_def clear_status_def driver_def bench_def status_defs Let_def)

lemma reads_numeral: "reads (numeral n) s = snd (read (reads (pred_numeral n) s))"
  by (simp add: numeral_eq_Suc)

lemma polls_numeral: "polls (numeral n) s = snd (data_ready (polls (pred_numeral n) s))"
  by (simp add: numeral_eq_Suc)

lemmas eval_read = read_good read_stuck cycle_low raw_value_low shifted_numeral
  extend_sign_def MAX_RAW_def MIN_RAW_def EXTEND_SIGN_def settled_status status_contains_def
  status_defs commit_def count_value_def clear_status_def set_status_def GAIN_128_def
  GAIN_64_def GAIN_32_def pulses_def driver_def bench_def cancel_def settled_read_def
  zero_now_def

lemmas eval_poll = data_ready_def data_def Timer_def discard_timer_def deinit_def
  set_status_def clear_status_def settled_def powered_up_def status_contains_def status_defs
  pending_def driver_def bench_def DATA_READY_TIMEOUT_eq Let_def

text \<open>Once the attribute holds a timer, \<open>data_ready\<close> never puts another one there and
  never creates one, whatever the data line does.\<close>

lemma data_ready_never_rearms:
  assumes "data_ready_timer s \<noteq> None"
  shows "data_ready_timer (snd (data_ready s)) = data_ready_timer s \<and>
    length (timers (hw (snd (data_ready s)))) = length (timers (hw s))"
  using assms
  by (auto simp add: data_ready_def data_def Let_def discard_timer_def deinit_def
      clear_status_def set_status_def)

section \<open>The claims\<close>

text \<open>
  C1, as the code has it. After \<open>zero_now\<close>, with a target \<open>N > 0\<close>, the first \<open>N\<close>
  settled reads only add their counts to the accumulator: the zeroing flag is still set
  after each of them, the \<open>N\<close>-th included. It is the settled read after those, the
  \<open>(N + 1)\<close>-th, that sets the offset to the rounded mean of the first \<open>N\<close> counts (its
  own count is not used) and clears the zeroing flag. The mean is the float quotient
  that the interpreter computes for the sum of the \<open>N\<close> counts and \<open>N\<close>, so the offset is
  the rounded exact mean on every input where that float division is exact.
\<close>

theorem zero_averaging_takes_one_more_read:
  assumes "zeros_to_average s = int N" and "0 < N"
    and "\<forall>i\<le>N. settled_read (reads i (zero_now s))"
  shows "(\<forall>k\<le>N. status_contains STATUS_ZEROING (reads k (zero_now s))) \<and>
    \<not> status_contains STATUS_ZEROING (reads (Suc N) (zero_now s)) \<and>
    offset (reads (Suc N) (zero_now s)) =
      py_round (float_div (hw s) (\<Sum>i<N. raw_value (reads i (zero_now s))) (int N)) \<and>
    (float_div (hw s) (\<Sum>i<N. raw_value (reads i (zero_now s))) (int N) =
       of_int (\<Sum>i<N. raw_value (reads i (zero_now s))) / of_int (int N) \<longrightarrow>
     offset (reads (Suc N) (zero_now s)) =
       py_round (of_int (\<Sum>i<N. raw_value (reads i (zero_now s))) / of_int (int N)))"
proof -
  have inv: "k \<le> N \<Longrightarrow> values_received (reads k (zero_now s)) = int k \<and>
    zeroing_sum (reads k (zero_now s)) = (\<Sum>i<k. raw_value (reads i (zero_now s))) \<and>
    zeros_to_average (reads k (zero_now s)) = zeros_to_average s \<and>
    offset (reads k (zero_now s)) = offset s \<and>
    float_div (hw (reads k (zero_now s))) = float_div (hw s) \<and>
    status_contains STATUS_ZEROING (reads k (zero_now s))" for k
    using assms by (intro averaging_invariant) simp_all
  let ?z = "reads N (zero_now s)"
  from assms have sr: "settled_read ?z" by simp
  from inv [of N] assms have a: "zeros_to_average ?z \<le> values_received ?z"
    "status_contains STATUS_ZEROING ?z" "0 < zeros_to_average ?z" by simp_all
  from read_finishing [OF sr a] inv [of N] assms(1) inv show ?thesis by simp
qed

text \<open>With a target of 2 and the counts 1, 2 and 0 on three settled reads: the flag is
  set after the second read and clear after the third, which sets the offset to
  \<open>round(1.5) = 2\<close>; the quotient \<open>3 / 2\<close> is exact.\<close>

theorem zero_averaging_takes_one_more_read_witness:
  "zeros_to_average (driver STATUS_NOMINAL GAIN_128 2 5 [24, 25, 49, 51, 77]) = int 2 \<and>
   settled_read (reads 0 (zero_now (driver STATUS_NOMINAL GAIN_128 2 5 [24, 25, 49, 51, 77]))) \<and>
   settled_read (reads 1 (zero_now (driver STATUS_NOMINAL GAIN_128 2 5 [24, 25, 49, 51, 77]))) \<and>
   settled_read (reads 2 (zero_now (driver STATUS_NOMINAL GAIN_128 2 5 [24, 25, 49, 51, 77]))) \<and>
   status_contains STATUS_ZEROING
     (reads 2 (zero_now (driver STATUS_NOMINAL GAIN_128 2 5 [24, 25, 49, 51, 77]))) \<and>
   \<not> status_contains STATUS_ZEROING
     (reads 3 (zero_now (driver STATUS_NOMINAL GAIN_128 2 5 [24, 25, 49, 51, 77]))) \<and>
   float_div (hw (driver STATUS_NOMINAL GAIN_128 2 5 [24, 25, 49, 51, 77])) 3 2 = 3 / 2 \<and>
   offset (reads 3 (zero_now (driver STATUS_NOMINAL GAIN_128 2 5 [24, 25, 49, 51, 77]))) = 2"
proof -
  let ?s = "driver STATUS_NOMINAL GAIN_128 2 5 [24, 25, 49, 51, 77]"
  have t: "zeros_to_average ?s = int 2" by (simp add: driver_def)
  have sr: "settled_read (reads 0 (zero_now ?s))" "settled_read (reads 1 (zero_now ?s))"
    "settled_read (reads 2 (zero_now ?s))"
    by (simp_all add: eval_read reads_numeral)
  have raw: "raw_value (reads 0 (zero_now ?s)) = 1" "raw_value (reads 1 (zero_now ?s)) = 2"
    by (simp_all add: eval_read)
  have all: "\<forall>i\<le>2. settled_read (reads i (zero_now ?s))"
  proof (intro allI impI)
    fix i :: nat assume "i \<le> 2"
    then have "i = 0 \<or> i = 1 \<or> i = 2" by auto
    with sr show "settled_read (reads i (zero_now ?s))" by auto
  qed
  have sum: "(\<Sum>i<2. raw_value (reads i (zero_now ?s))) = 3"
    using raw by (simp add: numeral_2_eq_2)
  have round: "py_round (3 / 2) = 2" by (simp add: py_round_def)
  have fd: "float_div (hw ?s) 3 2 = 3 / 2" by (simp add: driver_def bench_def)
  from zero_averaging_takes_one_more_read [OF t _ all] sum round fd t sr
  show ?thesis by (simp add: numeral_3_eq_3)
qed

text \<open>C1 as stated fails: with a target of 2, after exactly two settled reads with the
  counts 1 and 2 the zeroing flag is still set and the offset is not the rounded mean.\<close>

theorem zeroing_still_set_after_target_reads:
  "zeros_to_average (zero_now (driver STATUS_NOMINAL GAIN_128 2 5 [24, 25, 49, 51, 77])) = 2 \<and>
   settled_read (reads 0 (zero_now (driver STATUS_NOMINAL GAIN_128 2 5 [24, 25, 49, 51, 77]))) \<and>
   settled_read (reads 1 (zero_now (driver STATUS_NOMINAL GAIN_128 2 5 [24, 25, 49, 51, 77]))) \<and>
   raw_value (reads 0 (zero_now (driver STATUS_NOMINAL GAIN_128 2 5 [24, 25, 49, 51, 77]))) = 1 \<and>
   raw_value (reads 1 (zero_now (driver STATUS_NOMINAL GAIN_128 2 5 [24, 25, 49, 51, 77]))) = 2 \<and>
   status_contains STATUS_ZEROING
     (reads 2 (zero_now (driver STATUS_NOMINAL GAIN_128 2 5 [24, 25, 49, 51, 77]))) \<and>
   offset (reads 2 (zero_now (driver STATUS_NOMINAL GAIN_128 2 5 [24, 25, 49, 51, 77]))) \<noteq>
     py_round ((1 + 2) / 2)"
  by (simp add: eval_read reads_numeral py_round_def)

text \<open>
  C2, as the code has it. \<open>power_up\<close> calls \<open>set_gain\<close> with its default argument, so
  from any state it succeeds and leaves the configuration attribute at \<open>GAIN_128\<close>; the
  configuration it was entered with is kept only when that was \<open>GAIN_128\<close> already.
\<close>

theorem power_up_selects_GAIN_128:
  "\<not> isl (power_up s) \<and> configuration (projr (power_up s)) = GAIN_128"
  by (rule power_up_configuration)

text \<open>C2 as stated fails: a driver whose configuration is \<open>GAIN_64\<close> does not have it
  after \<open>power_up\<close>.\<close>

theorem power_up_drops_GAIN_64:
  "configuration (driver STATUS_NOMINAL GAIN_64 50 51 [25]) = GAIN_64 \<and>
   validate_gain (configuration (driver STATUS_NOMINAL GAIN_64 50 51 [25])) = Inr () \<and>
   \<not> isl (power_up (driver STATUS_NOMINAL GAIN_64 50 51 [25])) \<and>
   configuration (projr (power_up (driver STATUS_NOMINAL GAIN_64 50 51 [25]))) \<noteq>
     configuration (driver STATUS_NOMINAL GAIN_64 50 51 [25])"
  using power_up_configuration [of "driver STATUS_NOMINAL GAIN_64 50 51 [25]"]
  by (simp add: driver_def validate_gain_def GAIN_64_def GAIN_128_def GAIN_32_def)

text \<open>
  C3. The docstring of \<open>read\<close> promises \<open>gain * (ADC count - offset)\<close> as the result.
  Here a driver with nominal status, value 0 and offset 0 reads the count 20: the cycle
  completes, the status stays nominal and the value 20 is committed, but what \<open>read\<close>
  returns is Python's \<open>None\<close>, because the body ends without a \<open>return\<close>.
\<close>

theorem read_returns_None_after_commit:
  "status (driver STATUS_NOMINAL GAIN_128 50 51 [20, 22, 25]) = STATUS_NOMINAL \<and>
   val (driver STATUS_NOMINAL GAIN_128 50 51 [20, 22, 25]) = 0 \<and>
   raw_value (driver STATUS_NOMINAL GAIN_128 50 51 [20, 22, 25]) = 20 \<and>
   fst (read (driver STATUS_NOMINAL GAIN_128 50 51 [20, 22, 25])) = None \<and>
   status (snd (read (driver STATUS_NOMINAL GAIN_128 50 51 [20, 22, 25]))) = STATUS_NOMINAL \<and>
   val (snd (read (driver STATUS_NOMINAL GAIN_128 50 51 [20, 22, 25]))) = 20"
  by (simp add: eval_read)

text \<open>
  C4. \<open>read\<close> writes the value attribute only where the status word is exactly
  \<open>STATUS_NOMINAL\<close> at line 554; the status is not touched after that line, so whenever
  any flag is set when \<open>read\<close> is over, the value attribute is the one from before the
  call. This covers the two early returns as well, which leave the no-data or the
  stuck-low flag set.
\<close>

theorem read_commits_only_when_nominal:
  assumes flagged: "status (snd (read s)) \<noteq> STATUS_NOMINAL"
  shows "val (snd (read s)) = val s"
proof (cases "dout (hw s) (sampled (hw s))")
  case True
  then show ?thesis by (simp add: read_high)
next
  case low: False
  show ?thesis
  proof (cases "dout (hw s) (sampled (hw s) + 25)")
    case True
    from flagged have "val (snd (read s)) = val (cycle s)"
      by (simp add: read_good [OF low True] commit_fields commit_val count_value_fields
          split: if_splits)
    then show ?thesis by (simp add: cycle_fields [OF low])
  next
    case False
    then show ?thesis by (simp add: read_stuck [OF low False])
  qed
qed

theorem read_commits_only_when_nominal_witness:
  "status (snd (read (driver STATUS_ZEROING GAIN_128 50 0 [24, 25]))) \<noteq> STATUS_NOMINAL \<and>
   raw_value (driver STATUS_ZEROING GAIN_128 50 0 [24, 25]) = 1 \<and>
   val (snd (read (driver STATUS_ZEROING GAIN_128 50 0 [24, 25]))) =
     val (driver STATUS_ZEROING GAIN_128 50 0 [24, 25])"
proof -
  have h: "status (snd (read (driver STATUS_ZEROING GAIN_128 50 0 [24, 25]))) \<noteq>
      STATUS_NOMINAL"
    and r: "raw_value (driver STATUS_ZEROING GAIN_128 50 0 [24, 25]) = 1"
    by (simp_all add: eval_read)
  from read_commits_only_when_nominal [OF h] h r show ?thesis by simp
qed

text \<open>
  C5. A settled driver with no data-ready timer sees the data line high, low, high and
  high on four calls of \<open>data_ready\<close>. The first call arms the timeout timer and the
  second, finding the data ready, deinitialises it; but \<open>discard_timer\<close> cannot clear the
  attribute, so on the third and fourth calls, with the line high, the driver settled and
  no timer pending, no timer is armed: every timer of the store is inactive, and the
  timeout flag cannot become set however long the line stays high.
\<close>

theorem data_ready_timer_armed_once:
  "settled (driver STATUS_ZEROING GAIN_128 50 0 [0, 2, 3]) \<and>
   \<not> pending (data_ready_timer (driver STATUS_ZEROING GAIN_128 50 0 [0, 2, 3]))
       (driver STATUS_ZEROING GAIN_128 50 0 [0, 2, 3]) \<and>
   pending (data_ready_timer (polls 1 (driver STATUS_ZEROING GAIN_128 50 0 [0, 2, 3])))
       (polls 1 (driver STATUS_ZEROING GAIN_128 50 0 [0, 2, 3])) \<and>
   fst (data_ready (polls 1 (driver STATUS_ZEROING GAIN_128 50 0 [0, 2, 3]))) \<and>
   settled (polls 2 (driver STATUS_ZEROING GAIN_128 50 0 [0, 2, 3])) \<and>
   \<not> pending (data_ready_timer (polls 2 (driver STATUS_ZEROING GAIN_128 50 0 [0, 2, 3])))
       (polls 2 (driver STATUS_ZEROING GAIN_128 50 0 [0, 2, 3])) \<and>
   \<not> fst (data_ready (polls 2 (driver STATUS_ZEROING GAIN_128 50 0 [0, 2, 3]))) \<and>
   \<not> pending (data_ready_timer (polls 3 (driver STATUS_ZEROING GAIN_128 50 0 [0, 2, 3])))
       (polls 3 (driver STATUS_ZEROING GAIN_128 50 0 [0, 2, 3])) \<and>
   \<not> fst (data_ready (polls 3 (driver STATUS_ZEROING GAIN_128 50 0 [0, 2, 3]))) \<and>
   data_ready_timer (polls 4 (driver STATUS_ZEROING GAIN_128 50 0 [0, 2, 3])) = Some 1 \<and>
   map active (timers (hw (polls 4 (driver STATUS_ZEROING GAIN_128 50 0 [0, 2, 3])))) =
     [False, False] \<and>
   \<not> status_contains STATUS_DATA_READY_TIMEOUT
       (polls 4 (driver STATUS_ZEROING GAIN_128 50 0 [0, 2, 3]))"
  by (simp add: eval_poll polls_numeral)

text \<open>
  C6. When the data line is low at the data-ready test and low again at the 25th clock
  pulse, \<open>read\<close> sets the stuck-low flag, returns the value from before the call and
  leaves the value, the offset, the zero accumulator, the counter and the zeroing and
  out-of-range flags as they were; the status word and the rest of the instance do not
  depend on the 24 bits shifted in; and the clock line has seen exactly 25 pulses.
\<close>

theorem read_stuck_low:
  assumes "\<not> dout (hw s) (sampled (hw s))" and "\<not> dout (hw s) (sampled (hw s) + 25)"
  shows "status_contains STATUS_DOUT_STUCK_LOW (snd (read s)) \<and>
    fst (read s) = Some (val s) \<and>
    val (snd (read s)) = val s \<and>
    offset (snd (read s)) = offset s \<and>
    zeroing_sum (snd (read s)) = zeroing_sum s \<and>
    values_received (snd (read s)) = values_received s \<and>
    status (snd (read s)) = (status s AND NOT 112) OR 128 \<and>
    status_contains STATUS_ZEROING (snd (read s)) = status_contains STATUS_ZEROING s \<and>
    status_contains STATUS_OUT_OF_RANGE (snd (read s)) =
      status_contains STATUS_OUT_OF_RANGE s \<and>
    clock_log (hw (snd (read s))) = concat (replicate 25 [False, True]) @ clock_log (hw s)"
  by (simp add: read_stuck [OF assms] status_contains_def STATUS_DOUT_STUCK_LOW_def
      STATUS_NOMINAL_def STATUS_ZEROING_def STATUS_OUT_OF_RANGE_def pulses_fields
      bit.conj_disj_distrib2 and.assoc or_eq_0_iff)

theorem read_stuck_low_witness:
  "\<not> dout (hw (driver STATUS_NOMINAL GAIN_128 50 51 [24]))
       (sampled (hw (driver STATUS_NOMINAL GAIN_128 50 51 [24]))) \<and>
   \<not> dout (hw (driver STATUS_NOMINAL GAIN_128 50 51 [24]))
       (sampled (hw (driver STATUS_NOMINAL GAIN_128 50 51 [24])) + 25) \<and>
   status_contains STATUS_DOUT_STUCK_LOW
     (snd (read (driver STATUS_NOMINAL GAIN_128 50 51 [24]))) \<and>
   fst (read (driver STATUS_NOMINAL GAIN_128 50 51 [24])) = Some 0 \<and>
   length (clock_log (hw (snd (read (driver STATUS_NOMINAL GAIN_128 50 51 [24]))))) = 52"
  using read_stuck_low [of "driver STATUS_NOMINAL GAIN_128 50 51 [24]"]
  by (simp add: driver_def bench_def length_concat sum_list_replicate)

text \<open>
  C7. On a 24-bit accumulator the sign extension of lines 531-532 is the identity up to
  \<open>0x7fffff\<close> and subtracts \<open>0x1000000\<close> above it, and its result lies between
  \<open>MIN_RAW\<close> and \<open>MAX_RAW\<close>. (By \<open>shifted_range\<close>, what the 24 clock pulses shift in is
  such an accumulator.)
\<close>

theorem extend_sign_24_bit:
  assumes "0 \<le> raw" and "raw < 2 ^ 24"
  shows "extend_sign raw = (if raw \<le> 0x7fffff then raw else raw - 0x1000000) \<and>
    - 0x800000 \<le> extend_sign raw \<and> extend_sign raw \<le> 0x7fffff \<and>
    MIN_RAW \<le> extend_sign raw \<and> extend_sign raw \<le> MAX_RAW"
  using assms by (simp add: extend_sign_def MAX_RAW_def MIN_RAW_def EXTEND_SIGN_def)

theorem extend_sign_24_bit_witness:
  "(0::int) \<le> 0x800000 \<and> (0x800000::int) < 2 ^ 24 \<and>
   extend_sign 0x800000 = - 0x800000 \<and> extend_sign 0x800000 \<le> 0x7fffff"
  using extend_sign_24_bit [of "0x800000"] by simp

text \<open>
  C8. On a cycle that gets to the sign extension (the data line low at the data-ready
  test and high at the 25th pulse), the out-of-range flag is set when \<open>read\<close> is over if
  and only if the sign-extended count is \<open>MAX_RAW\<close> or \<open>MIN_RAW\<close>; on any other count it
  is clear, whatever it was before.
\<close>

theorem out_of_range_iff_extreme:
  assumes "\<not> dout (hw s) (sampled (hw s))" and "dout (hw s) (sampled (hw s) + 25)"
  shows "status_contains STATUS_OUT_OF_RANGE (snd (read s)) \<longleftrightarrow>
    raw_value s = MAX_RAW \<or> raw_value s = MIN_RAW"
  by (simp add: read_good [OF assms] commit_contains count_value_out_of_range
      out_of_range_cycle [OF assms(1)])

theorem out_of_range_iff_extreme_witness:
  "\<not> dout (hw (driver STATUS_NOMINAL GAIN_128 50 51 [2..<26]))
       (sampled (hw (driver STATUS_NOMINAL GAIN_128 50 51 [2..<26]))) \<and>
   dout (hw (driver STATUS_NOMINAL GAIN_128 50 51 [2..<26]))
       (sampled (hw (driver STATUS_NOMINAL GAIN_128 50 51 [2..<26])) + 25) \<and>
   raw_value (driver STATUS_NOMINAL GAIN_128 50 51 [2..<26]) = MAX_RAW \<and>
   status_contains STATUS_OUT_OF_RANGE
     (snd (read (driver STATUS_NOMINAL GAIN_128 50 51 [2..<26])))"
proof -
  have r: "raw_value (driver STATUS_NOMINAL GAIN_128 50 51 [2..<26]) = MAX_RAW"
    by (simp add: raw_value_low shifted_numeral extend_sign_def MAX_RAW_def driver_def
        bench_def)
  from out_of_range_iff_extreme [of "driver STATUS_NOMINAL GAIN_128 50 51 [2..<26]"] r
  show ?thesis by (simp add: driver_def bench_def)
qed

text \<open>
  C9, as the code has it. The counter is not capped at the target: every settled read
  adds one to it, so after a settled read it is at most the target exactly when it was
  below the target before. The only reset is at \<open>sys.maxsize\<close>: a settled read that
  finds the counter there, neither below the target nor zeroing, leaves it at the target
  plus one. The target itself is not changed by a read.
\<close>

theorem counter_runs_past_target:
  assumes "settled_read s"
  shows "values_received (snd (read s)) =
      (if values_received s < zeros_to_average s \<or> status_contains STATUS_ZEROING s
       then values_received s + 1
       else if values_received s = maxsize (hw s) then zeros_to_average s + 1
       else values_received s + 1) \<and>
    zeros_to_average (snd (read s)) = zeros_to_average s \<and>
    (values_received (snd (read s)) \<le> zeros_to_average (snd (read s)) \<longleftrightarrow>
       values_received s < zeros_to_average s)"
proof -
  from assms have low: "\<not> dout (hw s) (sampled (hw s))" by (simp add: settled_read_def)
  show ?thesis
    by (auto simp add: read_settled [OF assms] commit_fields count_value_fields
        count_value_received cycle_fields [OF low] zeroing_cycle [OF low])
qed

theorem counter_runs_past_target_witness:
  "settled_read (driver STATUS_NOMINAL GAIN_128 50 2147483647 [25]) \<and>
   values_received (driver STATUS_NOMINAL GAIN_128 50 2147483647 [25]) =
     maxsize (hw (driver STATUS_NOMINAL GAIN_128 50 2147483647 [25])) \<and>
   values_received (snd (read (driver STATUS_NOMINAL GAIN_128 50 2147483647 [25]))) = 51"
proof -
  have sr: "settled_read (driver STATUS_NOMINAL GAIN_128 50 2147483647 [25])"
    by (simp add: settled_read_def settled_status driver_def bench_def status_defs)
  from counter_runs_past_target [OF sr] sr show ?thesis
    by (simp add: driver_def bench_def status_contains_def status_defs)
qed

text \<open>C9 as stated fails: with the counter at the target, 50, a settled read leaves it
  at 51.\<close>

theorem counter_exceeds_target:
  "values_received (driver STATUS_ZEROING GAIN_128 50 50 [25]) \<le>
     zeros_to_average (driver STATUS_ZEROING GAIN_128 50 50 [25]) \<and>
   settled_read (driver STATUS_ZEROING GAIN_128 50 50 [25]) \<and>
   \<not> values_received (snd (read (driver STATUS_ZEROING GAIN_128 50 50 [25]))) \<le>
     zeros_to_average (snd (read (driver STATUS_ZEROING GAIN_128 50 50 [25])))"
  by (simp add: eval_read)

text \<open>
  C10. For each of the three legal codes the constructor succeeds, and the driver it
  returns has the configuration \<open>GAIN_128\<close>; indeed the whole result is the one for
  \<open>GAIN_128\<close>, so the argument has no effect beyond its validation.
\<close>

theorem init_ignores_gain:
  assumes "g \<in> {GAIN_128, GAIN_64, GAIN_32}"
  shows "\<not> isl (init h cp dp g) \<and> configuration (projr (init h cp dp g)) = GAIN_128 \<and>
    init h cp dp g = init h cp dp GAIN_128"
proof -
  have "validate_gain GAIN_128 = Inr ()" by (simp add: validate_gain_def)
  then show ?thesis
    by (simp add: init_eq [OF validate_gain_legal [OF assms]] init_eq)
qed

theorem init_ignores_gain_witness:
  "GAIN_64 \<in> {GAIN_128, GAIN_64, GAIN_32} \<and> GAIN_64 \<noteq> GAIN_128 \<and>
   \<not> isl (init (bench []) 27 26 GAIN_64) \<and>
   configuration (projr (init (bench []) 27 26 GAIN_64)) = GAIN_128"
proof -
  have g: "GAIN_64 \<in> {GAIN_128, GAIN_64, GAIN_32}" by simp
  from init_ignores_gain [OF g, of "bench []" 27 26]
  have "\<not> isl (init (bench []) 27 26 GAIN_64) \<and>
    configuration (projr (init (bench []) 27 26 GAIN_64)) = GAIN_128"
    by blast
  then show ?thesis by (simp add: GAIN_64_def GAIN_128_def)
qed

end
